theory Spec2Isabelle
  imports Complex_Main
begin

section \<open>Two mock Flask backends: edge-security and smart-router\<close>

text \<open>
  The repository holds two Flask applications,
  \<^verbatim>\<open>01-edge-security/infrastructure/backend/app.py\<close> and
  \<^verbatim>\<open>02-smart-router/infrastructure/backend/app.py\<close>. Each registers view functions
  with \<^verbatim>\<open>@app.route\<close>, two error handlers with \<^verbatim>\<open>@app.errorhandler\<close>, and keeps
  one module-level value, \<^verbatim>\<open>START_TIME\<close>. The view functions are embedded below one by
  one, under their own names; the part of Flask that calls them (URL matching, the choice
  of an error handler) is written out in \<open>match_request\<close> and \<open>handle\<close>.
\<close>

subsection \<open>JSON documents\<close>

text \<open>
  \<^verbatim>\<open>jsonify\<close> receives Python dicts, lists, strings, ints, bools and (for
  \<^verbatim>\<open>request.remote_addr\<close>) possibly \<^verbatim>\<open>None\<close>. A dict keeps its keys in insertion
  order and holds each key once, so an object is an association list that is only built
  through \<open>dict_set\<close> or from a literal with distinct keys.
\<close>

datatype json =
    JNull
  | JStr string
  | JInt int
  | JBool bool
  | JArr "json list"
  | JObj "(string \<times> json) list"

text \<open>\<^verbatim>\<open>d[k] = v\<close>: replace the value of an existing key in place, else append.\<close>

fun dict_set :: "(string \<times> 'v) list \<Rightarrow> string \<Rightarrow> 'v \<Rightarrow> (string \<times> 'v) list" where
  "dict_set [] k v = [(k, v)]"
| "dict_set ((k', v') # d) k v =
     (if k' = k then (k, v) # d else (k', v') # dict_set d k v)"

text \<open>\<^verbatim>\<open>dict(pairs)\<close> on an iterable of pairs: later pairs overwrite earlier ones.\<close>

definition dict_of_pairs :: "(string \<times> 'v) list \<Rightarrow> (string \<times> 'v) list" where
  "dict_of_pairs ps = foldl (\<lambda>d (k, v). dict_set d k v) [] ps"

text \<open>
  \<^verbatim>\<open>dict(request.args)\<close>: \<^verbatim>\<open>request.args\<close> is a multi-dict, and turning it into a
  dict keeps, for each key, the first of its values.
\<close>

fun dict_of_multidict :: "(string \<times> 'v) list \<Rightarrow> (string \<times> 'v) list" where
  "dict_of_multidict [] = []"
| "dict_of_multidict ((k, v) # ps) =
     (k, v) # dict_of_multidict (filter (\<lambda>(k', _). k' \<noteq> k) ps)"

definition str_dict :: "(string \<times> string) list \<Rightarrow> json" where
  "str_dict d = JObj (map (\<lambda>(k, v). (k, JStr v)) d)"

text \<open>Reading a document: the value of a key, the keys of an object, every key at any depth.\<close>

fun obj_get :: "json \<Rightarrow> string \<Rightarrow> json option" where
  "obj_get (JObj kvs) k = map_of kvs k"
| "obj_get _ k = None"

fun obj_keys :: "json \<Rightarrow> string list" where
  "obj_keys (JObj kvs) = map fst kvs"
| "obj_keys _ = []"

fun all_keys :: "json \<Rightarrow> string list" where
  "all_keys (JArr js) = concat (map all_keys js)"
| "all_keys (JObj kvs) = concat (map (\<lambda>(k, v). k # all_keys v) kvs)"
| "all_keys _ = []"

subsection \<open>Requests, responses and the process state\<close>

text \<open>
  A request is what the view functions read from Flask's \<^verbatim>\<open>request\<close> object:
  \<^verbatim>\<open>request.method\<close> (the field \<open>http_method\<close>), \<^verbatim>\<open>request.path\<close>, the
  pairs \<^verbatim>\<open>request.headers\<close> iterates over, the pairs of the query string behind \<^verbatim>\<open>request.args\<close>, the text that
  \<^verbatim>\<open>request.get_data(as_text=True)\<close> returns, and \<^verbatim>\<open>request.remote_addr\<close> (which may
  be \<^verbatim>\<open>None\<close>). All string literals of the two programs are ASCII.
\<close>

record request =
  http_method :: string
  path :: string
  headers :: "(string \<times> string) list"
  args :: "(string \<times> string) list"
  data_text :: string
  remote_addr :: "string option"

text \<open>
  A response is a status code and a body. \<open>JsonBody\<close> is a document made by
  \<^verbatim>\<open>jsonify\<close>; \<open>FrameworkBody\<close> stands for content that Flask produces by itself when
  no code of the application is involved (its built-in page for an HTTP error without a
  registered handler, a redirect, its empty answer to \<^verbatim>\<open>OPTIONS\<close>, a file of the
  static folder). The model describes the response
  object the application hands to the WSGI layer.
\<close>

datatype payload = JsonBody json | FrameworkBody

record response =
  status :: nat
  body :: payload

text \<open>
  An exception value, as the 500 handler receives it, and the records handed to
  \<^verbatim>\<open>logger\<close>. The f-strings that print a dict or an exception are kept structured.
\<close>

datatype exn = Exn string

datatype log_level = DEBUG | INFO | ERROR

datatype log_message =
    Text string
  | Request_headers "(string \<times> string) list"
  | Internal_error_msg exn

text \<open>
  The state of a running process: \<^verbatim>\<open>START_TIME\<close>, assigned once when the module is
  loaded, and the sequence of records passed to the logger so far. Times are
  microseconds since the epoch, the resolution of \<^verbatim>\<open>datetime\<close>.

  \<^verbatim>\<open>Flask(__name__)\<close> also serves the files of a \<^verbatim>\<open>static\<close> folder beside
  \<^verbatim>\<open>app.py\<close>. What is in that folder is not part of the two programs, so Flask's
  \<^verbatim>\<open>send_static_file\<close> is a parameter of the process: for a file name and a request
  it gives the response Flask builds from the file, or \<open>None\<close> where it raises
  \<^verbatim>\<open>NotFound\<close>. No code of the programs writes to it.
\<close>

record server_state =
  START_TIME :: int
  log_records :: "(log_level \<times> log_message) list"
  send_static_file :: "string \<Rightarrow> request \<Rightarrow> response option"

definition logger_call :: "log_level \<Rightarrow> log_message \<Rightarrow> server_state \<Rightarrow> server_state" where
  "logger_call lvl msg s = s\<lparr>log_records := log_records s @ [(lvl, msg)]\<rparr>"

definition jsonify :: "json \<Rightarrow> response" where
  "jsonify j = \<lparr>status = 200, body = JsonBody j\<rparr>"

text \<open>\<^verbatim>\<open>return jsonify(...), code\<close>: the tuple form sets the status of the response.\<close>

definition with_status :: "response \<Rightarrow> nat \<Rightarrow> response" where
  "with_status r code = r\<lparr>status := code\<rparr>"

definition body_get :: "response \<Rightarrow> string \<Rightarrow> json option" where
  "body_get r k = (case body r of JsonBody j \<Rightarrow> obj_get j k | FrameworkBody \<Rightarrow> None)"

definition body_keys :: "response \<Rightarrow> string list" where
  "body_keys r = (case body r of JsonBody j \<Rightarrow> obj_keys j | FrameworkBody \<Rightarrow> [])"

definition body_all_keys :: "response \<Rightarrow> string list" where
  "body_all_keys r = (case body r of JsonBody j \<Rightarrow> all_keys j | FrameworkBody \<Rightarrow> [])"

subsection \<open>Header lookup\<close>

text \<open>
  \<^verbatim>\<open>request.headers.get(name, default)\<close>: header names are compared without regard to
  the case of ASCII letters, the first header with that name gives the value, and the
  default is returned when there is none.
\<close>

definition lower_ascii :: "char \<Rightarrow> char" where
  "lower_ascii c =
     (case map_of (zip ''ABCDEFGHIJKLMNOPQRSTUVWXYZ'' ''abcdefghijklmnopqrstuvwxyz'') c of
        Some l \<Rightarrow> l
      | None \<Rightarrow> c)"

definition header_name_eq :: "string \<Rightarrow> string \<Rightarrow> bool" where
  "header_name_eq a b = (map lower_ascii a = map lower_ascii b)"

fun headers_get :: "(string \<times> string) list \<Rightarrow> string \<Rightarrow> string \<Rightarrow> string" where
  "headers_get [] name dflt = dflt"
| "headers_get ((n, v) # hs) name dflt =
     (if header_name_eq n name then v else headers_get hs name dflt)"

text \<open>
  The request carries header \<open>name\<close> with value \<open>v\<close>; the request carries no header
  \<open>name\<close>. The WSGI environment holds one entry per header name, which
  \<open>single_valued_headers\<close> expresses.
\<close>

definition carries :: "(string \<times> string) list \<Rightarrow> string \<Rightarrow> string \<Rightarrow> bool" where
  "carries hs name v = (\<exists>(n, v') \<in> set hs. header_name_eq n name \<and> v' = v)"

definition lacks :: "(string \<times> string) list \<Rightarrow> string \<Rightarrow> bool" where
  "lacks hs name = (\<forall>(n, v') \<in> set hs. \<not> header_name_eq n name)"

definition single_valued_headers :: "(string \<times> string) list \<Rightarrow> bool" where
  "single_valued_headers hs = distinct (map (\<lambda>(n, v). map lower_ascii n) hs)"

subsection \<open>The health check (both programs)\<close>

datatype backend = Edge_security | Smart_router

definition demo_name :: "backend \<Rightarrow> string" where
  "demo_name inst =
     (case inst of Edge_security \<Rightarrow> ''01-edge-security'' | Smart_router \<Rightarrow> ''02-smart-router'')"

text \<open>
  \<^verbatim>\<open>(datetime.now(timezone.utc) - START_TIME).total_seconds()\<close> is the difference in
  seconds, here an exact real number; \<^verbatim>\<open>int(uptime)\<close> drops the fractional part,
  rounding towards zero.
\<close>

definition total_seconds :: "int \<Rightarrow> real" where
  "total_seconds micros = real_of_int micros / 1000000"

definition int_of_float :: "real \<Rightarrow> int" where
  "int_of_float x = (if 0 \<le> x then \<lfloor>x\<rfloor> else \<lceil>x\<rceil>)"

definition health :: "backend \<Rightarrow> server_state \<Rightarrow> int \<Rightarrow> response" where
  "health inst s now =
     (let uptime = total_seconds (now - START_TIME s)
      in jsonify (JObj
           [(''status'', JStr ''healthy''),
            (''version'', JStr ''1.0.0''),
            (''demo'', JStr (demo_name inst)),
            (''uptime_seconds'', JInt (int_of_float uptime))]))"

subsection \<open>Views of the edge-security program\<close>

definition get_user :: "server_state \<Rightarrow> response \<times> server_state" where
  "get_user s =
     (let s' = logger_call INFO (Text ''GET /api/user - Returning user with PII data'') s
      in (jsonify (JObj
           [(''id'', JStr ''user-12345''),
            (''name'', JStr ''John Doe''),
            (''email'', JStr ''john.doe@example.com''),
            (''phone'', JStr ''555-123-4567''),
            (''ssn'', JStr ''123-45-6789''),
            (''payment'', JObj
               [(''card_number'', JStr ''4111-1111-1111-1111''),
                (''expiry'', JStr ''12/25''),
                (''billing_address'', JObj
                   [(''street'', JStr ''123 Main St''),
                    (''city'', JStr ''Anytown''),
                    (''state'', JStr ''CA''),
                    (''zip'', JStr ''12345'')])]),
            (''created_at'', JStr ''2024-01-15T10:30:00Z'')]), s'))"

definition get_user_clean :: "server_state \<Rightarrow> response \<times> server_state" where
  "get_user_clean s =
     (let s' = logger_call INFO
                 (Text ''GET /api/user-clean - Returning user without PII data'') s
      in (jsonify (JObj
           [(''id'', JStr ''user-12345''),
            (''name'', JStr ''John Doe''),
            (''membership'', JStr ''gold''),
            (''preferences'', JObj
               [(''newsletter'', JBool True),
                (''notifications'', JBool True)]),
            (''created_at'', JStr ''2024-01-15T10:30:00Z'')]), s'))"

definition get_users :: "server_state \<Rightarrow> response \<times> server_state" where
  "get_users s =
     (let s' = logger_call INFO
                 (Text ''GET /api/users - Returning multiple users with PII'') s
      in (jsonify (JObj
           [(''users'', JArr
               [JObj [(''id'', JStr ''user-001''),
                      (''name'', JStr ''Alice Smith''),
                      (''email'', JStr ''alice.smith@example.com''),
                      (''ssn'', JStr ''111-22-3333''),
                      (''card'', JStr ''5500-0000-0000-0004'')],
                JObj [(''id'', JStr ''user-002''),
                      (''name'', JStr ''Bob Johnson''),
                      (''email'', JStr ''bob.j@company.org''),
                      (''ssn'', JStr ''444-55-6666''),
                      (''card'', JStr ''3400-000000-00009'')],
                JObj [(''id'', JStr ''user-003''),
                      (''name'', JStr ''Carol Williams''),
                      (''email'', JStr ''carol@personal.net''),
                      (''ssn'', JStr ''777-88-9999''),
                      (''card'', JStr ''6011-0000-0000-0004'')]]),
            (''total'', JInt 3)]), s'))"

subsection \<open>Views of the smart-router program\<close>

definition get_version_v1 :: "request \<Rightarrow> server_state \<Rightarrow> response \<times> server_state" where
  "get_version_v1 req s =
     (let s' = logger_call INFO (Text ''GET /v1/api/version - Returning v1 stable response'') s;
          routed_by = headers_get (headers req) ''X-Routed-By'' ''direct'';
          route_reason = headers_get (headers req) ''X-Route-Reason'' ''none''
      in (jsonify (JObj
           [(''version'', JStr ''v1''),
            (''environment'', JStr ''production''),
            (''build'', JStr ''2024.01.15.001''),
            (''features'', JObj
               [(''new_dashboard'', JBool False),
                (''beta_analytics'', JBool False)]),
            (''routing_info'', JObj
               [(''routed_by'', JStr routed_by),
                (''route_reason'', JStr route_reason)])]), s'))"

definition get_version_v2 :: "request \<Rightarrow> server_state \<Rightarrow> response \<times> server_state" where
  "get_version_v2 req s =
     (let s' = logger_call INFO (Text ''GET /v2/api/version - Returning v2 beta response'') s;
          routed_by = headers_get (headers req) ''X-Routed-By'' ''direct'';
          route_reason = headers_get (headers req) ''X-Route-Reason'' ''none''
      in (jsonify (JObj
           [(''version'', JStr ''v2-beta''),
            (''environment'', JStr ''beta''),
            (''build'', JStr ''2024.01.20.042''),
            (''features'', JObj
               [(''new_dashboard'', JBool True),
                (''beta_analytics'', JBool True),
                (''experimental_ai'', JBool True)]),
            (''routing_info'', JObj
               [(''routed_by'', JStr routed_by),
                (''route_reason'', JStr route_reason)])]), s'))"

definition get_data_v1 :: "server_state \<Rightarrow> response \<times> server_state" where
  "get_data_v1 s =
     (let s' = logger_call INFO (Text ''GET /v1/api/data - Returning v1 data'') s
      in (jsonify (JObj
           [(''version'', JStr ''v1''),
            (''data'', JObj
               [(''items'', JArr [JStr ''item1'', JStr ''item2'', JStr ''item3'']),
                (''count'', JInt 3)])]), s'))"

definition get_data_v2 :: "server_state \<Rightarrow> response \<times> server_state" where
  "get_data_v2 s =
     (let s' = logger_call INFO (Text ''GET /v2/api/data - Returning v2 data'') s
      in (jsonify (JObj
           [(''version'', JStr ''v2-beta''),
            (''data'', JObj
               [(''items'', JArr [JStr ''item1'', JStr ''item2'', JStr ''item3'',
                                  JStr ''item4-new'', JStr ''item5-beta'']),
                (''count'', JInt 5),
                (''enhanced'', JBool True),
                (''ai_recommendations'', JArr [JStr ''rec1'', JStr ''rec2''])])]), s'))"

definition debug_echo :: "request \<Rightarrow> response" where
  "debug_echo req =
     (let response =
            [(''method'', JStr (http_method req)),
             (''path'', JStr (path req)),
             (''headers'', str_dict (dict_of_pairs (headers req))),
             (''args'', str_dict (dict_of_multidict (args req)))];
          response =
            (if http_method req = ''POST''
             then dict_set response ''body'' (JStr (data_text req))
             else response)
      in jsonify (JObj response))"

subsection \<open>Views and error handlers that both programs define\<close>

definition debug_headers :: "request \<Rightarrow> server_state \<Rightarrow> response \<times> server_state" where
  "debug_headers req s =
     (let hdrs = dict_of_pairs (headers req);
          s' = logger_call DEBUG (Request_headers hdrs) s
      in (jsonify (JObj
           [(''headers'', str_dict hdrs),
            (''method'', JStr (http_method req)),
            (''path'', JStr (path req)),
            (''remote_addr'',
               (case remote_addr req of None \<Rightarrow> JNull | Some a \<Rightarrow> JStr a))]), s'))"

definition not_found :: "exn \<Rightarrow> request \<Rightarrow> response" where
  "not_found error req =
     with_status (jsonify (JObj
        [(''error'', JStr ''Not Found''),
         (''message'', JStr (''The requested URL '' @ path req @ '' was not found'')),
         (''status'', JInt 404)])) 404"

definition internal_error :: "exn \<Rightarrow> server_state \<Rightarrow> response \<times> server_state" where
  "internal_error error s =
     (let s' = logger_call ERROR (Internal_error_msg error) s
      in (with_status (jsonify (JObj
            [(''error'', JStr ''Internal Server Error''),
             (''message'', JStr ''An unexpected error occurred''),
             (''status'', JInt 500)])) 500, s'))"

subsection \<open>Routing\<close>

text \<open>
  Each \<^verbatim>\<open>@app.route(path)\<close> registers a rule for \<^verbatim>\<open>GET\<close>; only
  \<^verbatim>\<open>/debug/echo\<close> passes \<^verbatim>\<open>methods=["GET", "POST"]\<close>. Stacked decorators register
  from the innermost outwards. Before any of them, \<^verbatim>\<open>Flask(__name__)\<close> has registered
  its own rule \<^verbatim>\<open>/static/<path:filename>\<close> for \<^verbatim>\<open>GET\<close>.
\<close>

datatype view =
    Health | Get_user | Get_user_clean | Get_users | Debug_headers
  | Get_version_v1 | Get_version_v2 | Get_data_v1 | Get_data_v2 | Debug_echo

datatype rule =
    Route string "string list" view
  | Static_route string

definition routes :: "backend \<Rightarrow> rule list" where
  "routes inst =
     (case inst of
        Edge_security \<Rightarrow>
          [Static_route ''/static/'',
           Route ''/health'' [''GET''] Health,
           Route ''/api/user'' [''GET''] Get_user,
           Route ''/api/user-clean'' [''GET''] Get_user_clean,
           Route ''/api/users'' [''GET''] Get_users,
           Route ''/debug/headers'' [''GET''] Debug_headers]
      | Smart_router \<Rightarrow>
          [Static_route ''/static/'',
           Route ''/health'' [''GET''] Health,
           Route ''/v1/api/version'' [''GET''] Get_version_v1,
           Route ''/api/version'' [''GET''] Get_version_v1,
           Route ''/v2/api/version'' [''GET''] Get_version_v2,
           Route ''/v1/api/data'' [''GET''] Get_data_v1,
           Route ''/v2/api/data'' [''GET''] Get_data_v2,
           Route ''/debug/headers'' [''GET''] Debug_headers,
           Route ''/debug/echo'' [''GET'', ''POST''] Debug_echo])"

text \<open>
  What a rule leads to when it matches a path. A rule written without converters and
  without a trailing slash matches exactly its own string. The \<^verbatim>\<open>path\<close> converter of
  the static rule has the regular expression \<^verbatim>\<open>[^/].*?\<close>, anchored at the end: the
  file name is what follows \<^verbatim>\<open>/static/\<close>, is not empty, does not begin with a slash and
  holds no line feed; it may hold slashes.
\<close>

datatype target = View view | Static_file string

definition path_argument :: "string \<Rightarrow> bool" where
  "path_argument f =
     (case f of
        [] \<Rightarrow> False
      | c # _ \<Rightarrow> c \<noteq> CHR ''/'' \<and> CHR 0x0A \<notin> set f)"

fun rule_target :: "rule \<Rightarrow> string \<Rightarrow> target option" where
  "rule_target (Route p ms v) q = (if q = p then Some (View v) else None)"
| "rule_target (Static_route pre) q =
     (if take (length pre) q = pre \<and> path_argument (drop (length pre) q)
      then Some (Static_file (drop (length pre) q))
      else None)"

fun rule_methods :: "rule \<Rightarrow> string list" where
  "rule_methods (Route p ms v) = ms"
| "rule_methods (Static_route pre) = [''GET'']"

text \<open>
  Flask adds \<^verbatim>\<open>HEAD\<close> to the methods of a rule for \<^verbatim>\<open>GET\<close>, and \<^verbatim>\<open>OPTIONS\<close> to the
  methods of every rule.
\<close>

definition accepts :: "string list \<Rightarrow> string \<Rightarrow> bool" where
  "accepts methods m =
     (m \<in> set methods \<or> (m = ''HEAD'' \<and> ''GET'' \<in> set methods) \<or> m = ''OPTIONS'')"

definition rules_matching :: "rule list \<Rightarrow> string \<Rightarrow> rule list" where
  "rules_matching rules p = filter (\<lambda>r. rule_target r p \<noteq> None) rules"

definition find_rule :: "rule list \<Rightarrow> string \<Rightarrow> string \<Rightarrow> target option" where
  "find_rule rules m p =
     (case filter (\<lambda>r. accepts (rule_methods r) m) (rules_matching rules p) of
        r # _ \<Rightarrow> rule_target r p
      | [] \<Rightarrow> None)"

text \<open>
  Matching works on the path as \<^verbatim>\<open>request.path\<close> gives it, which begins with one
  slash (Werkzeug strips further leading slashes). Werkzeug's second attempt, made when
  that path matches no rule for the method:
  \<^verbatim>\<open>re.sub("/{2,}?", "/", path)\<close> replaces, from left to right, each pair of slashes by
  one.
\<close>

fun merge_slashes :: "string \<Rightarrow> string" where
  "merge_slashes (a # b # cs) =
     (if a = CHR ''/'' \<and> b = CHR ''/'' then CHR ''/'' # merge_slashes cs
      else a # merge_slashes (b # cs))"
| "merge_slashes cs = cs"

text \<open>
  The outcome of URL matching. A rule that matches the path and accepts the method is
  taken. Otherwise, if the path with merged slashes has such a rule, Werkzeug asks for a
  redirect to that path (308). Otherwise the request is refused: with
  \<^verbatim>\<open>MethodNotAllowed\<close> (405) when some rule matched the path, as sent or merged, but
  not the method, and with \<^verbatim>\<open>NotFound\<close> (404) when none did.
\<close>

datatype match = Matched target | Redirect string | Not_found | Method_not_allowed

definition match_request :: "rule list \<Rightarrow> request \<Rightarrow> match" where
  "match_request rules req =
     (case find_rule rules (http_method req) (path req) of
        Some t \<Rightarrow> Matched t
      | None \<Rightarrow>
          (case find_rule rules (http_method req) (merge_slashes (path req)) of
             Some t \<Rightarrow> Redirect (merge_slashes (path req))
           | None \<Rightarrow>
               if rules_matching rules (path req) = []
                  \<and> rules_matching rules (merge_slashes (path req)) = []
               then Not_found
               else Method_not_allowed))"

subsection \<open>Handling one request\<close>

text \<open>
  A view function either returns a response or raises; no view of these two programs
  contains a statement that raises, so each returns. An exception that escapes a view is
  turned by Flask into a call of the handler registered for 500. The clock reading taken
  by \<^verbatim>\<open>datetime.now\<close> while the request is handled is the argument \<open>now\<close>.
\<close>

definition returned :: "response \<times> server_state \<Rightarrow> (exn + response) \<times> server_state" where
  "returned out = (Inr (fst out), snd out)"

definition run_view ::
  "backend \<Rightarrow> view \<Rightarrow> server_state \<Rightarrow> int \<Rightarrow> request \<Rightarrow> (exn + response) \<times> server_state" where
  "run_view inst v s now req =
     (case v of
        Health \<Rightarrow> returned (health inst s now, s)
      | Get_user \<Rightarrow> returned (get_user s)
      | Get_user_clean \<Rightarrow> returned (get_user_clean s)
      | Get_users \<Rightarrow> returned (get_users s)
      | Debug_headers \<Rightarrow> returned (debug_headers req s)
      | Get_version_v1 \<Rightarrow> returned (get_version_v1 req s)
      | Get_version_v2 \<Rightarrow> returned (get_version_v2 req s)
      | Get_data_v1 \<Rightarrow> returned (get_data_v1 s)
      | Get_data_v2 \<Rightarrow> returned (get_data_v2 s)
      | Debug_echo \<Rightarrow> returned (debug_echo req, s))"

definition finalize_request :: "(exn + response) \<times> server_state \<Rightarrow> response \<times> server_state" where
  "finalize_request out =
     (case out of
        (Inr r, s) \<Rightarrow> (r, s)
      | (Inl e, s) \<Rightarrow> internal_error e s)"

text \<open>
  The static endpoint answers with the file, or raises \<^verbatim>\<open>NotFound\<close>, which reaches the
  handler registered for 404 like the \<^verbatim>\<open>NotFound\<close> of URL matching.
\<close>

definition static_view :: "string \<Rightarrow> server_state \<Rightarrow> request \<Rightarrow> response" where
  "static_view filename s req =
     (case send_static_file s filename req of
        Some r \<Rightarrow> r
      | None \<Rightarrow> not_found (Exn ''404 Not Found'') req)"

text \<open>
  Flask answers \<^verbatim>\<open>OPTIONS\<close> itself for every rule that does not list it, without
  calling the view. The redirect and the 405 response are Flask's own as well: the
  programs register handlers for 404 and 500 only.
\<close>

definition handle ::
  "backend \<Rightarrow> server_state \<Rightarrow> int \<Rightarrow> request \<Rightarrow> response \<times> server_state" where
  "handle inst s now req =
     (case match_request (routes inst) req of
        Matched t \<Rightarrow>
          if http_method req = ''OPTIONS'' then (\<lparr>status = 200, body = FrameworkBody\<rparr>, s)
          else (case t of
                  View v \<Rightarrow> finalize_request (run_view inst v s now req)
                | Static_file filename \<Rightarrow> (static_view filename s req, s))
      | Redirect p \<Rightarrow> (\<lparr>status = 308, body = FrameworkBody\<rparr>, s)
      | Not_found \<Rightarrow> (not_found (Exn ''404 Not Found'') req, s)
      | Method_not_allowed \<Rightarrow> (\<lparr>status = 405, body = FrameworkBody\<rparr>, s))"

text \<open>The process serves a sequence of requests, each with its own clock reading.\<close>

fun serve_all :: "backend \<Rightarrow> server_state \<Rightarrow> (int \<times> request) list \<Rightarrow> server_state" where
  "serve_all inst s [] = s"
| "serve_all inst s ((now, req) # rest) = serve_all inst (snd (handle inst s now req)) rest"

subsection \<open>Reading a response\<close>

text \<open>
  The member \<open>k\<close> of the \<^verbatim>\<open>routing_info\<close> object of a response, the three paths
  that serve a version document, and the keys \<^verbatim>\<open>debug_echo\<close> always sets.
\<close>

definition routing_info :: "response \<Rightarrow> string \<Rightarrow> json option" where
  "routing_info r k =
     (case body_get r ''routing_info'' of Some info \<Rightarrow> obj_get info k | None \<Rightarrow> None)"

definition version_paths :: "string list" where
  "version_paths = [''/v2/api/version'', ''/v1/api/version'', ''/api/version'']"

definition echo_keys :: "string list" where
  "echo_keys = [''method'', ''path'', ''headers'', ''args'']"

text \<open>
  Some rule matches the path and lists the method of the request; some rule matches a
  path, whatever the method. \<open>squeeze_slashes\<close> merges every run of slashes into one
  slash, which is as far as any merging of slashes can go.
\<close>

definition has_route :: "backend \<Rightarrow> request \<Rightarrow> bool" where
  "has_route inst req =
     (\<exists>r \<in> set (routes inst).
        rule_target r (path req) \<noteq> None \<and> http_method req \<in> set (rule_methods r))"


fun squeeze_slashes :: "string \<Rightarrow> string" where
  "squeeze_slashes (a # b # cs) =
     (if a = CHR ''/'' \<and> b = CHR ''/'' then squeeze_slashes (b # cs)
      else a # squeeze_slashes (b # cs))"
| "squeeze_slashes cs = cs"

text \<open>
  The state of the process as other requests may leave it, whether they were served
  before or are being served at the same time: the views only call the logger, so all
  that other requests do to what is shared is to add records to the log.
\<close>

definition with_log :: "server_state \<Rightarrow> (log_level \<times> log_message) list \<Rightarrow> server_state" where
  "with_log s records = s\<lparr>log_records := records\<rparr>"

subsection \<open>Sample requests\<close>

text \<open>
  A process started at second 1 of the epoch, with no file in its static folder, and
  requests as a test client would send them.
\<close>

definition boot :: server_state where
  "boot = \<lparr>START_TIME = 1000000, log_records = [], send_static_file = (\<lambda>f r. None)\<rparr>"

definition plain_get :: "string \<Rightarrow> request" where
  "plain_get p = \<lparr>http_method = ''GET'', path = p, headers = [(''Host'', ''backend'')],
     args = [], data_text = '''', remote_addr = Some ''10.0.0.1''\<rparr>"

definition tagged_get :: request where
  "tagged_get = (plain_get ''/v2/api/version'')
     \<lparr>headers := [(''Host'', ''backend''), (''X-Routed-By'', ''filter-x''),
                   (''X-Route-Reason'', ''beta-criteria'')]\<rparr>"

definition probe_a :: request where
  "probe_a = plain_get ''/debug/headers''"

definition probe_b :: request where
  "probe_b = probe_a\<lparr>remote_addr := Some ''10.0.0.2''\<rparr>"


definition put_health :: request where
  "put_health = (plain_get ''/health'')\<lparr>http_method := ''PUT''\<rparr>"

definition post_static :: request where
  "post_static = (plain_get ''/static/x'')\<lparr>http_method := ''POST''\<rparr>"

definition alias_a :: request where
  "alias_a = (plain_get ''/api/version'')
     \<lparr>headers := [(''X-Routed-By'', ''filter-x'')], args := [(''q'', ''1'')]\<rparr>"

definition alias_b :: request where
  "alias_b = (plain_get ''/v1/api/version'')
     \<lparr>headers := [(''X-Routed-By'', ''filter-x'')], remote_addr := None\<rparr>"

definition echo_post :: request where
  "echo_post = \<lparr>http_method = ''POST'', path = ''/debug/echo'',
     headers = [(''Host'', ''backend''), (''Content-Type'', ''text/plain'')],
     args = [(''a'', ''1''), (''a'', ''2'')], data_text = ''hello'',
     remote_addr = Some ''10.0.0.1''\<rparr>"

definition echo_get :: request where
  "echo_get = (plain_get ''/debug/echo'')\<lparr>args := [(''a'', ''1''), (''a'', ''2'')]\<rparr>"

section \<open>Properties\<close>

subsection \<open>The state of the process\<close>

text \<open>
  Handling a request appends to the log and nothing else: \<^verbatim>\<open>START_TIME\<close> and the
  static folder keep their values, and no response reads the log.
\<close>

lemmas view_defs = get_user_def get_user_clean_def get_users_def debug_headers_def
  get_version_v1_def get_version_v2_def get_data_v1_def get_data_v2_def

lemmas dispatch_defs = handle_def match_request_def find_rule_def rules_matching_def routes_def
  accepts_def finalize_request_def run_view_def returned_def

lemmas outcome_defs = handle_def finalize_request_def run_view_def returned_def internal_error_def
  static_view_def logger_call_def Let_def

lemma handle_START_TIME: "START_TIME (snd (handle inst s now req)) = START_TIME s"
  by (simp add: outcome_defs view_defs split: match.splits target.splits view.splits)

lemma handle_send_static_file:
  "send_static_file (snd (handle inst s now req)) = send_static_file s"
  by (simp add: outcome_defs view_defs split: match.splits target.splits view.splits)

lemma handle_log_only:
  "snd (handle inst s now req) = with_log s (log_records (snd (handle inst s now req)))"
  by (simp add: outcome_defs view_defs with_log_def
      split: match.splits target.splits view.splits)

lemma handle_log_grows:
  "\<exists>new. log_records (snd (handle inst s now req)) = log_records s @ new"
  by (simp add: outcome_defs view_defs split: match.splits target.splits view.splits)

lemma serve_all_START_TIME: "START_TIME (serve_all inst s reqs) = START_TIME s"
  by (induction reqs arbitrary: s) (auto simp: handle_START_TIME)

lemma serve_all_send_static_file:
  "send_static_file (serve_all inst s reqs) = send_static_file s"
  by (induction reqs arbitrary: s) (auto simp: handle_send_static_file)

lemma handle_response_state:
  "START_TIME s = START_TIME s' \<Longrightarrow> send_static_file s = send_static_file s' \<Longrightarrow>
   fst (handle inst s now req) = fst (handle inst s' now req)"
  by (simp add: outcome_defs view_defs health_def
      split: match.splits target.splits view.splits)

subsection \<open>Routing\<close>

lemma find_rule_target:
  "find_rule rules m p = Some t \<Longrightarrow> \<exists>r \<in> set rules. rule_target r p = Some t"
proof -
  assume a: "find_rule rules m p = Some t"
  then obtain r rs where f: "filter (\<lambda>r. accepts (rule_methods r) m) (rules_matching rules p) = r # rs"
    and t: "rule_target r p = Some t"
    by (auto simp: find_rule_def split: list.splits)
  have "r \<in> set (filter (\<lambda>r. accepts (rule_methods r) m) (rules_matching rules p))"
    unfolding f by simp
  then have "r \<in> set rules" by (simp add: rules_matching_def)
  with t show ?thesis by blast
qed

lemma health_rule_path:
  "r \<in> set (routes inst) \<Longrightarrow> rule_target r p = Some (View Health) \<Longrightarrow> p = ''/health''"
  by (cases inst) (auto simp: routes_def split: if_splits)

lemma match_no_Health:
  "path req \<noteq> ''/health'' \<Longrightarrow> match_request (routes inst) req \<noteq> Matched (View Health)"
proof
  assume ne: "path req \<noteq> ''/health''"
    and m: "match_request (routes inst) req = Matched (View Health)"
  from m have "find_rule (routes inst) (http_method req) (path req) = Some (View Health)"
    by (auto simp: match_request_def split: option.splits if_splits)
  then obtain r where "r \<in> set (routes inst)" "rule_target r (path req) = Some (View Health)"
    using find_rule_target by blast
  then have "path req = ''/health''" by (rule health_rule_path)
  with ne show False by simp
qed

lemma handle_response_clock:
  "path req \<noteq> ''/health'' \<Longrightarrow> send_static_file s = send_static_file s' \<Longrightarrow>
   fst (handle inst s now req) = fst (handle inst s' now' req)"
  using match_no_Health [of req inst]
  by (simp add: outcome_defs view_defs split: match.splits target.splits view.splits)



text \<open>
  Merging pairs of slashes never reaches a path that shortening every run of slashes
  does not reach as well.
\<close>

lemma squeeze_Nil_iff: "squeeze_slashes xs = [] \<longleftrightarrow> xs = []"
  by (induction xs rule: squeeze_slashes.induct) auto


lemma hd_squeeze: "hd (squeeze_slashes xs) = hd xs"
  by (induction xs rule: squeeze_slashes.induct) auto











lemma handle_health:
  "http_method req = ''GET'' \<Longrightarrow> path req = ''/health'' \<Longrightarrow>
   fst (handle inst s now req) = health inst s now"
  by (cases inst) (simp_all add: dispatch_defs)

lemma handle_v2:
  "http_method req = ''GET'' \<Longrightarrow> path req = ''/v2/api/version'' \<Longrightarrow>
   handle Smart_router s now req = get_version_v2 req s"
  by (simp add: dispatch_defs)

lemma handle_v1:
  "http_method req = ''GET'' \<Longrightarrow> path req = ''/v1/api/version'' \<Longrightarrow>
   handle Smart_router s now req = get_version_v1 req s"
  by (simp add: dispatch_defs)

lemma handle_v0:
  "http_method req = ''GET'' \<Longrightarrow> path req = ''/api/version'' \<Longrightarrow>
   handle Smart_router s now req = get_version_v1 req s"
  by (simp add: dispatch_defs)

lemma handle_debug_headers:
  "http_method req = ''GET'' \<Longrightarrow> path req = ''/debug/headers'' \<Longrightarrow>
   handle inst s now req = debug_headers req s"
  by (cases inst) (simp_all add: dispatch_defs)

lemma handle_users:
  "http_method req = ''GET'' \<Longrightarrow> path req = ''/api/users'' \<Longrightarrow>
   handle Edge_security s now req = get_users s"
  by (simp add: dispatch_defs)

lemma handle_user_clean:
  "http_method req = ''GET'' \<Longrightarrow> path req = ''/api/user-clean'' \<Longrightarrow>
   handle Edge_security s now req = get_user_clean s"
  by (simp add: dispatch_defs)

lemma handle_echo:
  "http_method req = ''GET'' \<or> http_method req = ''POST'' \<Longrightarrow> path req = ''/debug/echo'' \<Longrightarrow>
   handle Smart_router s now req = (debug_echo req, s)"
  by (auto simp add: dispatch_defs)

lemma handle_echo_other:
  "http_method req \<noteq> ''POST'' \<Longrightarrow> path req = ''/debug/echo'' \<Longrightarrow>
   ''body'' \<notin> set (body_keys (fst (handle Smart_router s now req)))"
  by (simp add: dispatch_defs debug_echo_def Let_def jsonify_def body_keys_def)

subsection \<open>Header lookup, dicts and truncation\<close>

lemma headers_get_lacks: "lacks hs name \<Longrightarrow> headers_get hs name d = d"
  by (induction hs) (auto simp: lacks_def)

lemma headers_get_carries:
  "single_valued_headers hs \<Longrightarrow> carries hs name v \<Longrightarrow> headers_get hs name d = v"
proof (induction hs)
  case Nil
  then show ?case by (simp add: carries_def)
next
  case (Cons h hs)
  obtain n w where h: "h = (n, w)" by (cases h)
  show ?case
  proof (cases "header_name_eq n name")
    case True
    have "\<not> (\<exists>(n', v') \<in> set hs. header_name_eq n' name)"
      using Cons.prems(1) True h
      by (force simp: single_valued_headers_def header_name_eq_def)
    with Cons.prems(2) True h show ?thesis by (auto simp: carries_def)
  next
    case False
    with Cons h show ?thesis by (auto simp: carries_def single_valued_headers_def)
  qed
qed

lemma lower_ascii_simps:
  "map lower_ascii ''X-Routed-By'' = ''x-routed-by''"
  "map lower_ascii ''X-Route-Reason'' = ''x-route-reason''"
  "map lower_ascii ''Host'' = ''host''"
  by (simp_all add: lower_ascii_def)

lemma map_of_dict_set: "map_of (dict_set d k v) = (map_of d)(k \<mapsto> v)"
  by (induction d) (auto simp: fun_eq_iff)

lemma foldl_dict_set_map_of:
  "map_of (foldl (\<lambda>d (k, v). dict_set d k v) acc ps) = map_of acc ++ map_of (rev ps)"
proof (induction ps arbitrary: acc)
  case Nil
  show ?case by simp
next
  case (Cons a ps)
  obtain k v where a: "a = (k, v)" by (cases a)
  have "map_of (foldl (\<lambda>d (k, v). dict_set d k v) acc (a # ps))
      = map_of (dict_set acc k v) ++ map_of (rev ps)"
    by (simp add: a Cons.IH)
  also have "\<dots> = (map_of acc)(k \<mapsto> v) ++ map_of (rev ps)"
    by (simp only: map_of_dict_set)
  also have "\<dots> = map_of acc ++ map_of (rev (a # ps))"
    by (auto simp: a fun_eq_iff map_add_def split: option.splits)
  finally show ?case .
qed

lemma map_of_dict_of_pairs: "map_of (dict_of_pairs ps) = map_of (rev ps)"
  by (simp add: dict_of_pairs_def foldl_dict_set_map_of)

lemma dict_set_fresh: "k \<notin> fst ` set d \<Longrightarrow> dict_set d k v = d @ [(k, v)]"
  by (induction d) auto

lemma foldl_dict_set_distinct:
  "distinct (map fst (acc @ ps)) \<Longrightarrow> foldl (\<lambda>d (k, v). dict_set d k v) acc ps = acc @ ps"
proof (induction ps arbitrary: acc)
  case Nil
  show ?case by simp
next
  case (Cons a ps)
  obtain k v where a: "a = (k, v)" by (cases a)
  from Cons.prems have fresh: "k \<notin> fst ` set acc" and d: "distinct (map fst ((acc @ [(k, v)]) @ ps))"
    by (auto simp: a)
  show ?case
    using Cons.IH [OF d] by (simp add: a dict_set_fresh [OF fresh])
qed

lemma dict_of_pairs_distinct: "distinct (map fst ps) \<Longrightarrow> dict_of_pairs ps = ps"
  using foldl_dict_set_distinct [of "[]" ps] by (simp add: dict_of_pairs_def)

lemma map_of_str_pairs:
  "map_of (map (\<lambda>(k, v). (k, JStr v)) d) n = map_option JStr (map_of d n)"
  by (induction d) auto

lemma int_of_float_nonneg: "0 \<le> x \<Longrightarrow> 0 \<le> int_of_float x"
  by (simp add: int_of_float_def)

lemma int_of_float_mono: "0 \<le> x \<Longrightarrow> x \<le> y \<Longrightarrow> int_of_float x \<le> int_of_float y"
  by (simp add: int_of_float_def floor_mono)

lemma routing_info_v1:
  "routing_info (fst (get_version_v1 req s)) ''routed_by''
     = Some (JStr (headers_get (headers req) ''X-Routed-By'' ''direct''))"
  "routing_info (fst (get_version_v1 req s)) ''route_reason''
     = Some (JStr (headers_get (headers req) ''X-Route-Reason'' ''none''))"
  by (simp_all add: get_version_v1_def Let_def jsonify_def routing_info_def body_get_def)

lemma routing_info_v2:
  "routing_info (fst (get_version_v2 req s)) ''routed_by''
     = Some (JStr (headers_get (headers req) ''X-Routed-By'' ''direct''))"
  "routing_info (fst (get_version_v2 req s)) ''route_reason''
     = Some (JStr (headers_get (headers req) ''X-Route-Reason'' ''none''))"
  by (simp_all add: get_version_v2_def Let_def jsonify_def routing_info_def body_get_def)

lemma handle_version:
  assumes "http_method req = ''GET''" and "path req \<in> set version_paths"
  shows "routing_info (fst (handle Smart_router s now req)) ''routed_by''
           = Some (JStr (headers_get (headers req) ''X-Routed-By'' ''direct''))"
    and "routing_info (fst (handle Smart_router s now req)) ''route_reason''
           = Some (JStr (headers_get (headers req) ''X-Route-Reason'' ''none''))"
proof -
  from assms(2) consider "path req = ''/v2/api/version''" | "path req = ''/v1/api/version''"
    | "path req = ''/api/version''"
    by (auto simp: version_paths_def)
  then have "routing_info (fst (handle Smart_router s now req)) ''routed_by''
           = Some (JStr (headers_get (headers req) ''X-Routed-By'' ''direct''))
     \<and> routing_info (fst (handle Smart_router s now req)) ''route_reason''
           = Some (JStr (headers_get (headers req) ''X-Route-Reason'' ''none''))"
  proof cases
    case 1
    with assms(1) show ?thesis by (simp only: handle_v2 routing_info_v2 simp_thms)
  next
    case 2
    with assms(1) show ?thesis by (simp only: handle_v1 routing_info_v1 simp_thms)
  next
    case 3
    with assms(1) show ?thesis by (simp only: handle_v0 routing_info_v1 simp_thms)
  qed
  then show "routing_info (fst (handle Smart_router s now req)) ''routed_by''
           = Some (JStr (headers_get (headers req) ''X-Routed-By'' ''direct''))"
    and "routing_info (fst (handle Smart_router s now req)) ''route_reason''
           = Some (JStr (headers_get (headers req) ''X-Route-Reason'' ''none''))"
    by simp_all
qed

subsection \<open>Echo of the routing headers\<close>

text \<open>
  Claim C1. For every \<^verbatim>\<open>GET\<close> request to \<^verbatim>\<open>/v2/api/version\<close>,
  \<^verbatim>\<open>/v1/api/version\<close> or \<^verbatim>\<open>/api/version\<close> of the smart-router program: if the
  request carries header \<^verbatim>\<open>X-Routed-By\<close> with value \<open>r\<close>, then
  \<^verbatim>\<open>routing_info.routed_by\<close> of the response is \<open>r\<close>, and if it carries no such header it
  is \<^verbatim>\<open>"direct"\<close>; likewise \<^verbatim>\<open>X-Route-Reason\<close> with value \<open>w\<close> gives
  \<^verbatim>\<open>routing_info.route_reason\<close> \<open>w\<close>, and its absence gives \<^verbatim>\<open>"none"\<close>. The request
  holds at most one entry per header name, as a WSGI environment does.
\<close>

theorem routing_info_echo:
  assumes "http_method req = ''GET''" and "path req \<in> set version_paths"
    and "single_valued_headers (headers req)"
  shows "(carries (headers req) ''X-Routed-By'' r \<longrightarrow>
            routing_info (fst (handle Smart_router s now req)) ''routed_by'' = Some (JStr r))
       \<and> (lacks (headers req) ''X-Routed-By'' \<longrightarrow>
            routing_info (fst (handle Smart_router s now req)) ''routed_by'' = Some (JStr ''direct''))
       \<and> (carries (headers req) ''X-Route-Reason'' w \<longrightarrow>
            routing_info (fst (handle Smart_router s now req)) ''route_reason'' = Some (JStr w))
       \<and> (lacks (headers req) ''X-Route-Reason'' \<longrightarrow>
            routing_info (fst (handle Smart_router s now req)) ''route_reason'' = Some (JStr ''none''))"
  using assms by (simp add: handle_version headers_get_lacks headers_get_carries)

text \<open>
  With both headers set on \<^verbatim>\<open>/v2/api/version\<close> the values come back; with neither
  set on \<^verbatim>\<open>/api/version\<close> the defaults do.
\<close>

theorem routing_info_echo_witness:
  "routing_info (fst (handle Smart_router boot 5 tagged_get)) ''routed_by'' = Some (JStr ''filter-x'')
   \<and> routing_info (fst (handle Smart_router boot 5 tagged_get)) ''route_reason'' = Some (JStr ''beta-criteria'')
   \<and> routing_info (fst (handle Smart_router boot 5 (plain_get ''/api/version''))) ''routed_by'' = Some (JStr ''direct'')
   \<and> routing_info (fst (handle Smart_router boot 5 (plain_get ''/api/version''))) ''route_reason'' = Some (JStr ''none'')"
proof -
  have m: "http_method tagged_get = ''GET''" "http_method (plain_get ''/api/version'') = ''GET''"
    by (simp_all add: tagged_get_def plain_get_def)
  have p: "path tagged_get \<in> set version_paths" "path (plain_get ''/api/version'') \<in> set version_paths"
    by (simp_all add: tagged_get_def plain_get_def version_paths_def)
  have sv: "single_valued_headers (headers tagged_get)"
    "single_valued_headers (headers (plain_get ''/api/version''))"
    by (simp_all add: tagged_get_def plain_get_def single_valued_headers_def lower_ascii_simps)
  have c: "carries (headers tagged_get) ''X-Routed-By'' ''filter-x''"
    "carries (headers tagged_get) ''X-Route-Reason'' ''beta-criteria''"
    by (simp_all add: tagged_get_def plain_get_def carries_def header_name_eq_def lower_ascii_simps)
  have l: "lacks (headers (plain_get ''/api/version'')) ''X-Routed-By''"
    "lacks (headers (plain_get ''/api/version'')) ''X-Route-Reason''"
    by (simp_all add: plain_get_def lacks_def header_name_eq_def lower_ascii_simps)
  show ?thesis
    using routing_info_echo [OF m(1) p(1) sv(1), of "''filter-x''" boot 5 "''beta-criteria''"]
      routing_info_echo [OF m(2) p(2) sv(2), of "''x''" boot 5 "''y''"] c l
    by simp
qed

subsection \<open>Responses depend on the request only\<close>

text \<open>
  Claim C2, as amended. For every route of either backend the response is a function of
  the current request alone (and, for \<^verbatim>\<open>/health\<close> only, of \<^verbatim>\<open>START_TIME\<close> and the
  clock reading): two requests with the same method, path, headers, query parameters,
  body text and remote address receive the same response, and the response to a request
  is unchanged by any other requests served before it or at the same time. Other
  requests change nothing but the log; the response is the same after any sequence of
  other requests and for any content of the log, and for every path other than
  \<^verbatim>\<open>/health\<close> also for any start time and clock reading.
\<close>

theorem response_of_request_alone:
  assumes "http_method r1 = http_method r2" and "path r1 = path r2"
    and "headers r1 = headers r2" and "args r1 = args r2"
    and "data_text r1 = data_text r2" and "remote_addr r1 = remote_addr r2"
  shows "fst (handle inst (serve_all inst s others) now r2) = fst (handle inst s now r1)
       \<and> fst (handle inst (with_log s records) now r2) = fst (handle inst s now r1)
       \<and> (path r1 \<noteq> ''/health'' \<longrightarrow>
            fst (handle inst (with_log (s\<lparr>START_TIME := t\<rparr>) records) now' r2)
              = fst (handle inst s now r1))
       \<and> snd (handle inst s now r1) = with_log s (log_records (snd (handle inst s now r1)))"
proof -
  have eq: "r2 = r1" using assms by simp
  have before: "fst (handle inst (serve_all inst s others) now r1) = fst (handle inst s now r1)"
    by (rule handle_response_state)
       (simp_all add: serve_all_START_TIME serve_all_send_static_file)
  have during: "fst (handle inst (with_log s records) now r1) = fst (handle inst s now r1)"
    by (rule handle_response_state) (simp_all add: with_log_def)
  have clock: "path r1 \<noteq> ''/health'' \<longrightarrow>
      fst (handle inst (with_log (s\<lparr>START_TIME := t\<rparr>) records) now' r1)
        = fst (handle inst s now r1)"
  proof
    assume "path r1 \<noteq> ''/health''"
    then show "fst (handle inst (with_log (s\<lparr>START_TIME := t\<rparr>) records) now' r1)
        = fst (handle inst s now r1)"
      by (rule handle_response_clock) (simp add: with_log_def)
  qed
  from before during clock handle_log_only [of inst s now r1] show ?thesis
    unfolding eq by blast
qed

theorem response_of_request_alone_witness:
  "fst (handle Edge_security
         (serve_all Edge_security boot [(2, plain_get ''/api/user''), (3, probe_b)]) 5 probe_a)
     = fst (handle Edge_security boot 5 probe_a)
   \<and> fst (handle Edge_security
         (with_log boot [(INFO, Text ''GET /api/user - Returning user with PII data'')]) 5 probe_a)
     = fst (handle Edge_security boot 5 probe_a)
   \<and> fst (handle Edge_security
         (with_log (boot\<lparr>START_TIME := 7\<rparr>) [(DEBUG, Text ''x'')]) 9 probe_a)
     = fst (handle Edge_security boot 5 probe_a)"
proof -
  have ne: "path probe_a \<noteq> ''/health''"
    by (simp add: probe_a_def plain_get_def)
  show ?thesis
    using response_of_request_alone [of probe_a probe_a Edge_security boot
        "[(2, plain_get ''/api/user''), (3, probe_b)]" 5
        "[(INFO, Text ''GET /api/user - Returning user with PII data'')]"] 
      response_of_request_alone [of probe_a probe_a Edge_security boot "[]" 5
        "[(DEBUG, Text ''x'')]" 7 9] ne
    by simp
qed

text \<open>
  The remote address is needed in that list: \<^verbatim>\<open>debug_headers\<close> puts
  \<^verbatim>\<open>request.remote_addr\<close> into the body, so two requests that agree on method, path,
  headers, query parameters and body but come from different addresses get different
  bodies from \<^verbatim>\<open>/debug/headers\<close>.
\<close>

theorem same_fields_counterexample:
  "http_method probe_a = http_method probe_b \<and> path probe_a = path probe_b
   \<and> headers probe_a = headers probe_b \<and> args probe_a = args probe_b
   \<and> data_text probe_a = data_text probe_b
   \<and> body (fst (handle Edge_security boot 5 probe_a))
       \<noteq> body (fst (handle Edge_security boot 5 probe_b))"
proof -
  have "http_method probe_a = ''GET''" "path probe_a = ''/debug/headers''"
    "http_method probe_b = ''GET''" "path probe_b = ''/debug/headers''"
    by (simp_all add: probe_a_def probe_b_def plain_get_def)
  then have "handle Edge_security boot 5 probe_a = debug_headers probe_a boot"
    "handle Edge_security boot 5 probe_b = debug_headers probe_b boot"
    by (simp_all only: handle_debug_headers)
  then show ?thesis
    by (simp add: debug_headers_def Let_def jsonify_def probe_a_def probe_b_def plain_get_def)
qed

subsection \<open>Uptime\<close>

text \<open>
  Claim C3, as amended. A \<^verbatim>\<open>GET\<close> request to \<^verbatim>\<open>/health\<close> of either backend is
  answered with status 200 and an integer \<^verbatim>\<open>uptime_seconds\<close> that is not negative,
  and a later \<^verbatim>\<open>GET /health\<close> call of the same process, after any other requests,
  reports an uptime that is not smaller, provided the first clock reading is at or after
  \<^verbatim>\<open>START_TIME\<close> and the second at or after the first.
\<close>

theorem health_uptime:
  assumes "http_method r1 = ''GET''" and "path r1 = ''/health''"
    and "http_method r2 = ''GET''" and "path r2 = ''/health''"
    and "START_TIME s \<le> t1" and "t1 \<le> t2"
  shows "\<exists>u1 u2.
           status (fst (handle inst s t1 r1)) = 200
         \<and> body_get (fst (handle inst s t1 r1)) ''uptime_seconds'' = Some (JInt u1)
         \<and> status (fst (handle inst (serve_all inst (snd (handle inst s t1 r1)) others) t2 r2)) = 200
         \<and> body_get (fst (handle inst (serve_all inst (snd (handle inst s t1 r1)) others) t2 r2))
              ''uptime_seconds'' = Some (JInt u2)
         \<and> 0 \<le> u1 \<and> u1 \<le> u2"
proof -
  let ?s2 = "serve_all inst (snd (handle inst s t1 r1)) others"
  let ?u1 = "int_of_float (total_seconds (t1 - START_TIME s))"
  let ?u2 = "int_of_float (total_seconds (t2 - START_TIME s))"
  have st: "START_TIME ?s2 = START_TIME s"
    by (simp add: serve_all_START_TIME handle_START_TIME)
  have h1: "fst (handle inst s t1 r1) = health inst s t1"
    using assms(1,2) by (rule handle_health)
  have h2: "fst (handle inst ?s2 t2 r2) = health inst ?s2 t2"
    using assms(3,4) by (rule handle_health)
  have f: "status (health inst x t) = 200"
    "body_get (health inst x t) ''uptime_seconds''
       = Some (JInt (int_of_float (total_seconds (t - START_TIME x))))" for x t
    by (simp_all add: health_def Let_def jsonify_def body_get_def)
  have nn: "0 \<le> total_seconds (t1 - START_TIME s)"
    using assms(5) by (simp add: total_seconds_def)
  have le: "total_seconds (t1 - START_TIME s) \<le> total_seconds (t2 - START_TIME s)"
    using assms(6) by (simp add: total_seconds_def divide_right_mono)
  have "0 \<le> ?u1" using nn by (rule int_of_float_nonneg)
  moreover have "?u1 \<le> ?u2" using nn le by (rule int_of_float_mono)
  ultimately show ?thesis
    unfolding h1 h2 f st by blast
qed

theorem health_uptime_witness:
  "\<exists>u1 u2.
     status (fst (handle Edge_security boot 3500000 (plain_get ''/health''))) = 200
   \<and> body_get (fst (handle Edge_security boot 3500000 (plain_get ''/health'')))
        ''uptime_seconds'' = Some (JInt u1)
   \<and> status (fst (handle Edge_security
        (serve_all Edge_security (snd (handle Edge_security boot 3500000 (plain_get ''/health'')))
           [(4000000, probe_a)]) 9000000 (plain_get ''/health''))) = 200
   \<and> body_get (fst (handle Edge_security
        (serve_all Edge_security (snd (handle Edge_security boot 3500000 (plain_get ''/health'')))
           [(4000000, probe_a)]) 9000000 (plain_get ''/health''))) ''uptime_seconds'' = Some (JInt u2)
   \<and> 0 \<le> u1 \<and> u1 \<le> u2"
proof -
  have g: "http_method (plain_get ''/health'') = ''GET''" "path (plain_get ''/health'') = ''/health''"
    by (simp_all add: plain_get_def)
  have t: "START_TIME boot \<le> 3500000" "(3500000::int) \<le> 9000000"
    by (simp_all add: boot_def)
  show ?thesis
    by (rule health_uptime [OF g g t])
qed

text \<open>
  The method matters: the rule for \<^verbatim>\<open>/health\<close> is registered for \<^verbatim>\<open>GET\<close> only, so
  a \<^verbatim>\<open>PUT\<close> request to \<^verbatim>\<open>/health\<close> never reaches the view; its response has
  status 405 and no \<^verbatim>\<open>uptime_seconds\<close>.
\<close>

theorem health_other_method_counterexample:
  "path put_health = ''/health''
   \<and> status (fst (handle Smart_router boot 3500000 put_health)) = 405
   \<and> status (fst (handle Smart_router boot 3500000 put_health)) \<noteq> 200
   \<and> body_get (fst (handle Smart_router boot 3500000 put_health)) ''uptime_seconds'' = None"
  by (simp add: put_health_def plain_get_def dispatch_defs body_get_def)

text \<open>
  Two and a half seconds after the start the reported uptime is 2.
\<close>

lemma uptime_truncates:
  "body_get (fst (handle Edge_security boot 3500000 (plain_get ''/health''))) ''uptime_seconds''
     = Some (JInt 2)"
  by (simp add: handle_health plain_get_def health_def Let_def jsonify_def body_get_def
      boot_def total_seconds_def int_of_float_def)

subsection \<open>The alias of the v1 version route\<close>

text \<open>
  Claim C4. A \<^verbatim>\<open>GET\<close> request to \<^verbatim>\<open>/api/version\<close> and a \<^verbatim>\<open>GET\<close> request to
  \<^verbatim>\<open>/v1/api/version\<close> of the smart-router program that carry the same headers receive
  the same body, whatever else differs between them and whenever they are served.
\<close>

theorem version_alias:
  assumes "http_method r1 = ''GET''" and "path r1 = ''/api/version''"
    and "http_method r2 = ''GET''" and "path r2 = ''/v1/api/version''"
    and "headers r1 = headers r2"
  shows "body (fst (handle Smart_router s1 t1 r1)) = body (fst (handle Smart_router s2 t2 r2))"
proof -
  have "handle Smart_router s1 t1 r1 = get_version_v1 r1 s1"
    using assms(1,2) by (rule handle_v0)
  moreover have "handle Smart_router s2 t2 r2 = get_version_v1 r2 s2"
    using assms(3,4) by (rule handle_v1)
  ultimately show ?thesis
    using assms(5) by (simp add: get_version_v1_def Let_def)
qed

theorem version_alias_witness:
  "body (fst (handle Smart_router boot 5 alias_a))
     = body (fst (handle Smart_router (boot\<lparr>START_TIME := 0\<rparr>) 8 alias_b))"
proof -
  have "http_method alias_a = ''GET''" "path alias_a = ''/api/version''"
    "http_method alias_b = ''GET''" "path alias_b = ''/v1/api/version''"
    "headers alias_a = headers alias_b"
    by (simp_all add: alias_a_def alias_b_def plain_get_def)
  then show ?thesis by (rule version_alias)
qed

subsection \<open>Unknown paths\<close>




text \<open>
  The same holds for the static rule, and a path that has a rule once its slashes are
  merged is answered with a redirect: \<^verbatim>\<open>POST /static/x\<close> gets 405 and
  \<^verbatim>\<open>GET /debug//echo\<close> gets 308, while \<^verbatim>\<open>GET /static/x\<close> with no such file reaches
  the 404 handler.
\<close>

lemma static_and_merged_paths:
  "\<not> has_route Edge_security post_static"
  "status (fst (handle Edge_security boot 5 post_static)) = 405"
  "\<not> has_route Smart_router (plain_get ''/debug//echo'')"
  "status (fst (handle Smart_router boot 5 (plain_get ''/debug//echo''))) = 308"
  "fst (handle Smart_router boot 5 (plain_get ''/static/x''))
     = not_found (Exn ''404 Not Found'') (plain_get ''/static/x'')"
  by (simp_all add: has_route_def post_static_def plain_get_def dispatch_defs path_argument_def
      static_view_def boot_def)

subsection \<open>The 500 handler\<close>

text \<open>
  Claim C6. Whatever exception escapes a view and whatever the state of the process,
  the response has status 500 and the body
  \<^verbatim>\<open>{error: "Internal Server Error", message: "An unexpected error occurred", status: 500}\<close>;
  no part of the exception appears in it.
\<close>

theorem internal_error_fixed_body:
  "fst (finalize_request (Inl e, s)) =
     \<lparr>status = 500,
      body = JsonBody (JObj
        [(''error'', JStr ''Internal Server Error''),
         (''message'', JStr ''An unexpected error occurred''),
         (''status'', JInt 500)])\<rparr>"
  by (simp add: finalize_request_def internal_error_def Let_def with_status_def jsonify_def)

theorem internal_error_fixed_body_witness:
  "fst (finalize_request (Inl (Exn ''division by zero''), boot))
     = fst (finalize_request (Inl (Exn ''key error: secret''), boot\<lparr>log_records := [(INFO, Text ''x'')]\<rparr>))"
  by (simp only: internal_error_fixed_body)

subsection \<open>The user list\<close>

text \<open>
  Claim C7. The response to \<^verbatim>\<open>GET /api/users\<close> of the edge-security program has a
  \<^verbatim>\<open>users\<close> array of exactly 3 elements, each with the fields \<^verbatim>\<open>name\<close>,
  \<^verbatim>\<open>email\<close>, \<^verbatim>\<open>ssn\<close> and \<^verbatim>\<open>card\<close>, and a \<^verbatim>\<open>total\<close> equal to the length of
  that array.
\<close>

theorem users_total:
  assumes "http_method req = ''GET''" and "path req = ''/api/users''"
  shows "\<exists>us. body_get (fst (handle Edge_security s now req)) ''users'' = Some (JArr us)
           \<and> length us = 3
           \<and> (\<forall>u \<in> set us. {''name'', ''email'', ''ssn'', ''card''} \<subseteq> set (obj_keys u))
           \<and> body_get (fst (handle Edge_security s now req)) ''total''
                = Some (JInt (int (length us)))"
  unfolding handle_users [OF assms]
  by (simp add: get_users_def Let_def jsonify_def body_get_def)

theorem users_total_witness:
  "\<exists>us. body_get (fst (handle Edge_security boot 5 (plain_get ''/api/users''))) ''users''
            = Some (JArr us)
         \<and> length us = 3
         \<and> (\<forall>u \<in> set us. {''name'', ''email'', ''ssn'', ''card''} \<subseteq> set (obj_keys u))
         \<and> body_get (fst (handle Edge_security boot 5 (plain_get ''/api/users''))) ''total''
              = Some (JInt (int (length us)))"
proof -
  have "http_method (plain_get ''/api/users'') = ''GET''" "path (plain_get ''/api/users'') = ''/api/users''"
    by (simp_all add: plain_get_def)
  then show ?thesis by (rule users_total)
qed

subsection \<open>The clean user record\<close>

text \<open>
  Claim C8. The response to \<^verbatim>\<open>GET /api/user-clean\<close> of the edge-security program
  has, at no depth of its document, a field named \<^verbatim>\<open>ssn\<close>, \<^verbatim>\<open>card_number\<close> or
  \<^verbatim>\<open>payment\<close>.
\<close>

theorem user_clean_no_sensitive_field:
  assumes "http_method req = ''GET''" and "path req = ''/api/user-clean''"
  shows "''ssn'' \<notin> set (body_all_keys (fst (handle Edge_security s now req)))
       \<and> ''card_number'' \<notin> set (body_all_keys (fst (handle Edge_security s now req)))
       \<and> ''payment'' \<notin> set (body_all_keys (fst (handle Edge_security s now req)))"
  unfolding handle_user_clean [OF assms]
  by (simp add: get_user_clean_def Let_def jsonify_def body_all_keys_def)

theorem user_clean_no_sensitive_field_witness:
  "''ssn'' \<notin> set (body_all_keys (fst (handle Edge_security boot 5 (plain_get ''/api/user-clean''))))
   \<and> ''card_number'' \<notin> set (body_all_keys (fst (handle Edge_security boot 5 (plain_get ''/api/user-clean''))))
   \<and> ''payment'' \<notin> set (body_all_keys (fst (handle Edge_security boot 5 (plain_get ''/api/user-clean''))))"
proof -
  have "http_method (plain_get ''/api/user-clean'') = ''GET''"
    "path (plain_get ''/api/user-clean'') = ''/api/user-clean''"
    by (simp_all add: plain_get_def)
  then show ?thesis by (rule user_clean_no_sensitive_field)
qed

subsection \<open>The echo view\<close>

text \<open>
  Claim C9. For every \<^verbatim>\<open>POST\<close> request to \<^verbatim>\<open>/debug/echo\<close> of the smart-router
  program the response has status 200, its \<^verbatim>\<open>body\<close> field is the body text of the
  request, its \<^verbatim>\<open>method\<close> field is \<^verbatim>\<open>"POST"\<close>, its \<^verbatim>\<open>path\<close> field is the path of
  the request, and its \<^verbatim>\<open>headers\<close> field is an object that maps every header name of
  the request to its value (the last one, should a name occur twice); when no name
  occurs twice it lists the headers of the request one by one, in their order.
\<close>

theorem echo_post_body:
  assumes "http_method req = ''POST''" and "path req = ''/debug/echo''"
  shows "status (fst (handle Smart_router s now req)) = 200
       \<and> body_get (fst (handle Smart_router s now req)) ''body'' = Some (JStr (data_text req))
       \<and> body_get (fst (handle Smart_router s now req)) ''method'' = Some (JStr ''POST'')
       \<and> body_get (fst (handle Smart_router s now req)) ''path'' = Some (JStr (path req))
       \<and> (\<exists>h. body_get (fst (handle Smart_router s now req)) ''headers'' = Some (JObj h)
              \<and> (\<forall>n. map_of h n = map_option JStr (map_of (rev (headers req)) n))
              \<and> (distinct (map fst (headers req)) \<longrightarrow>
                    h = map (\<lambda>(n, v). (n, JStr v)) (headers req)))"
proof -
  let ?h = "map (\<lambda>(n, v). (n, JStr v)) (dict_of_pairs (headers req))"
  have e: "handle Smart_router s now req = (debug_echo req, s)"
    using assms by (simp add: handle_echo)
  have fields: "status (debug_echo req) = 200"
    "body_get (debug_echo req) ''body'' = Some (JStr (data_text req))"
    "body_get (debug_echo req) ''method'' = Some (JStr ''POST'')"
    "body_get (debug_echo req) ''path'' = Some (JStr (path req))"
    "body_get (debug_echo req) ''headers'' = Some (JObj ?h)"
    using assms by (simp_all add: debug_echo_def Let_def jsonify_def body_get_def str_dict_def)
  have look: "\<forall>n. map_of ?h n = map_option JStr (map_of (rev (headers req)) n)"
    by (simp add: map_of_str_pairs map_of_dict_of_pairs)
  have same: "distinct (map fst (headers req)) \<longrightarrow>
      ?h = map (\<lambda>(n, v). (n, JStr v)) (headers req)"
    by (simp add: dict_of_pairs_distinct)
  from fields look same show ?thesis
    unfolding e by auto
qed

theorem echo_post_body_witness:
  "status (fst (handle Smart_router boot 5 echo_post)) = 200
   \<and> body_get (fst (handle Smart_router boot 5 echo_post)) ''body'' = Some (JStr ''hello'')
   \<and> body_get (fst (handle Smart_router boot 5 echo_post)) ''method'' = Some (JStr ''POST'')
   \<and> body_get (fst (handle Smart_router boot 5 echo_post)) ''path'' = Some (JStr ''/debug/echo'')
   \<and> body_get (fst (handle Smart_router boot 5 echo_post)) ''headers''
        = Some (JObj [(''Host'', JStr ''backend''), (''Content-Type'', JStr ''text/plain'')])"
proof -
  have m: "http_method echo_post = ''POST''" and p: "path echo_post = ''/debug/echo''"
    by (simp_all add: echo_post_def)
  have d: "distinct (map fst (headers echo_post))"
    by (simp add: echo_post_def)
  have h: "map (\<lambda>(n, v). (n, JStr v)) (headers echo_post)
      = [(''Host'', JStr ''backend''), (''Content-Type'', JStr ''text/plain'')]"
    by (simp add: echo_post_def)
  from echo_post_body [OF m p, of boot 5] d h show ?thesis
    by (auto simp: echo_post_def)
qed

text \<open>
  Claim C10. For a request to \<^verbatim>\<open>/debug/echo\<close> of the smart-router program:
  with method \<^verbatim>\<open>GET\<close> the keys of the response are exactly \<^verbatim>\<open>method\<close>, \<^verbatim>\<open>path\<close>,
  \<^verbatim>\<open>headers\<close> and \<^verbatim>\<open>args\<close>; with method \<^verbatim>\<open>POST\<close> they are these four and
  \<^verbatim>\<open>body\<close>; \<^verbatim>\<open>args\<close> holds the query parameters for \<^verbatim>\<open>POST\<close> as well as for
  \<^verbatim>\<open>GET\<close>; and the key \<^verbatim>\<open>body\<close> is present exactly when the method is
  \<^verbatim>\<open>POST\<close>.
\<close>

theorem echo_key_set:
  assumes "path req = ''/debug/echo''"
  shows "(http_method req = ''GET'' \<longrightarrow>
            body_keys (fst (handle Smart_router s now req)) = echo_keys)
       \<and> (http_method req = ''POST'' \<longrightarrow>
            body_keys (fst (handle Smart_router s now req)) = echo_keys @ [''body''])
       \<and> (http_method req = ''GET'' \<or> http_method req = ''POST'' \<longrightarrow>
            body_get (fst (handle Smart_router s now req)) ''args''
              = Some (str_dict (dict_of_multidict (args req))))
       \<and> (''body'' \<in> set (body_keys (fst (handle Smart_router s now req)))
            \<longleftrightarrow> http_method req = ''POST'')"
proof -
  have g: "http_method req = ''GET'' \<Longrightarrow>
      body_keys (fst (handle Smart_router s now req)) = echo_keys"
    using assms
    by (simp add: handle_echo debug_echo_def Let_def jsonify_def body_keys_def echo_keys_def)
  have p: "http_method req = ''POST'' \<Longrightarrow>
      body_keys (fst (handle Smart_router s now req)) = echo_keys @ [''body'']"
    using assms
    by (simp add: handle_echo debug_echo_def Let_def jsonify_def body_keys_def echo_keys_def)
  have a: "http_method req = ''GET'' \<or> http_method req = ''POST'' \<Longrightarrow>
      body_get (fst (handle Smart_router s now req)) ''args''
        = Some (str_dict (dict_of_multidict (args req)))"
    using assms
    by (auto simp add: handle_echo debug_echo_def Let_def jsonify_def body_get_def)
  have b: "''body'' \<in> set (body_keys (fst (handle Smart_router s now req)))
            \<longleftrightarrow> http_method req = ''POST''"
  proof (cases "http_method req = ''POST''")
    case True
    with p show ?thesis by simp
  next
    case False
    with handle_echo_other [OF False assms] show ?thesis by simp
  qed
  from g p a b show ?thesis by blast
qed

theorem echo_key_set_witness:
  "body_keys (fst (handle Smart_router boot 5 echo_get)) = [''method'', ''path'', ''headers'', ''args'']
   \<and> ''body'' \<notin> set (body_keys (fst (handle Smart_router boot 5 echo_get)))
   \<and> body_get (fst (handle Smart_router boot 5 echo_get)) ''args'' = Some (JObj [(''a'', JStr ''1'')])
   \<and> body_keys (fst (handle Smart_router boot 5 echo_post))
        = [''method'', ''path'', ''headers'', ''args'', ''body'']
   \<and> body_get (fst (handle Smart_router boot 5 echo_post)) ''args'' = Some (JObj [(''a'', JStr ''1'')])"
proof -
  have g: "path echo_get = ''/debug/echo''" "http_method echo_get = ''GET''"
    by (simp_all add: echo_get_def plain_get_def)
  have p: "path echo_post = ''/debug/echo''" "http_method echo_post = ''POST''"
    by (simp_all add: echo_post_def)
  have a: "args echo_get = [(''a'', ''1''), (''a'', ''2'')]" "args echo_post = [(''a'', ''1''), (''a'', ''2'')]"
    by (simp_all add: echo_get_def echo_post_def plain_get_def)
  show ?thesis
    using echo_key_set [OF g(1), of boot 5] echo_key_set [OF p(1), of boot 5] g(2) p(2)
    by (simp add: a echo_keys_def str_dict_def)
qed

end
